theory Spec2Isabelle
  imports Main "HOL-Library.Word" "HOL-Library.Sublist" "HOL-Library.Multiset"
begin

section \<open>Strings, paths and errors\<close>

text \<open>
  A Go string is a sequence of bytes; so is an Isabelle \<open>string\<close>. File contents
  (\<open>[]byte\<close>) are modelled by the same type, which makes \<open>[]byte(magic)\<close> the identity.
\<close>

datatype go_error =
    EOF
  | ErrUnexpectedEOF
  | ErrNotExist
  | ErrOther string

text \<open>ASCII lower-casing of one byte.\<close>

definition toLower :: "char \<Rightarrow> char" where
  "toLower c =
     (case map_of (zip ''ABCDEFGHIJKLMNOPQRSTUVWXYZ'' ''abcdefghijklmnopqrstuvwxyz'') c of
        Some d \<Rightarrow> d
      | None \<Rightarrow> c)"

text \<open>
  \<open>strings.EqualFold\<close> compares under Unicode simple case folding. The only non-ASCII
  runes in the folding orbit of an ASCII letter are the Kelvin sign U+212A (bytes E2 84 AA,
  orbit of k) and the long s U+017F (bytes C5 BF, orbit of s). \<open>foldcase\<close> maps a byte
  string to a canonical representative: it is exact whenever one of the two arguments of
  \<open>EqualFold\<close> is ASCII, which holds at every call site of the program (the second
  argument is always an ASCII literal or table key).
\<close>

fun foldcase :: "string \<Rightarrow> string" where
  "foldcase [] = []"
| "foldcase (c # cs) =
     (if c = CHR 0xE2 \<and> take 2 cs = [CHR 0x84, CHR 0xAA] then CHR ''k'' # foldcase (drop 2 cs)
      else if c = CHR 0xC5 \<and> take 1 cs = [CHR 0xBF] then CHR ''s'' # foldcase (drop 1 cs)
      else toLower c # foldcase cs)"

definition EqualFold :: "string \<Rightarrow> string \<Rightarrow> bool" where
  "EqualFold s t = (foldcase s = foldcase t)"

text \<open>
  \<open>bytes.HasPrefix(s, prefix)\<close> and \<open>strings.HasPrefix\<close>:
  \<open>len(s) >= len(prefix) && s[:len(prefix)] == prefix\<close>.
\<close>

definition HasPrefix :: "string \<Rightarrow> string \<Rightarrow> bool" where
  "HasPrefix s p = (length p \<le> length s \<and> take (length p) s = p)"

text \<open>
  \<open>filepath.Ext\<close>: scan from the end while the byte is not a path separator; at the first
  dot return the suffix starting there; otherwise the empty string. The first argument of
  \<open>Ext_rev\<close> is the part of the path not yet scanned, reversed.
\<close>

fun Ext_rev :: "string \<Rightarrow> string \<Rightarrow> string" where
  "Ext_rev [] acc = []"
| "Ext_rev (c # cs) acc =
     (if c = CHR ''/'' then []
      else if c = CHR ''.'' then c # acc
      else Ext_rev cs (c # acc))"

definition Ext :: "string \<Rightarrow> string" where
  "Ext path = Ext_rev (rev path) []"

text \<open>
  \<open>filepath.Base\<close>: the last element of the path. Trailing separators are removed first;
  the empty path gives \<open>.\<close>, a path of separators only gives \<open>/\<close>.
\<close>

definition Base :: "string \<Rightarrow> string" where
  "Base path =
     (if path = [] then ''.''
      else let p = rev (dropWhile (\<lambda>c. c = CHR ''/'') (rev path)) in
        if p = [] then ''/''
        else rev (takeWhile (\<lambda>c. c \<noteq> CHR ''/'') (rev p)))"

section \<open>The file system seen by the walk\<close>

text \<open>
  A file that can be opened is a byte stream: the bytes it delivers, and how the stream ends
  (\<open>None\<close>: a clean end of file; \<open>Some e\<close>: the read that follows the last byte fails
  with \<open>e\<close>). \<open>os.Open\<close> is the environment \<open>filesystem\<close>: an error or a file.
\<close>

record os_file =
  data :: string
  fault :: "go_error option"

type_synonym filesystem = "string \<Rightarrow> go_error + os_file"

text \<open>
  \<open>io.ReadFull(file, buffer)\<close> on a zero-initialised buffer of \<open>n\<close> bytes: the buffer after
  the call and the error. A full buffer is no error; a short read is \<open>io.EOF\<close> when nothing
  was read and \<open>io.ErrUnexpectedEOF\<close> otherwise, unless the stream ended with an error of
  its own.
\<close>

definition ReadFull :: "os_file \<Rightarrow> nat \<Rightarrow> string \<times> go_error option" where
  "ReadFull f n =
     (if n \<le> length (data f) then (take n (data f), None)
      else (data f @ replicate (n - length (data f)) (CHR 0x00),
            (case fault f of
               None \<Rightarrow> if data f = [] then Some EOF else Some ErrUnexpectedEOF
             | Some EOF \<Rightarrow> if data f = [] then Some EOF else Some ErrUnexpectedEOF
             | Some e \<Rightarrow> Some e)))"

section \<open>Classification by signature\<close>

text \<open>The table \<open>imageSignatures\<close>, in the order of the source text.\<close>

definition imageSignatures :: "(string \<times> string) list" where
  "imageSignatures =
    [(''ftypisom'', ''video/mp4''),
     (''ftypMSNV'', ''video/mp4''),
     ([CHR 0xFF, CHR 0xD8, CHR 0xFF], ''image/jpeg''),
     (''GIF87a'', ''image/gif''),
     (''GIF89a'', ''image/gif''),
     (''BM'', ''image/bmp''),
     ([CHR ''I'', CHR ''I'', CHR ''*'', CHR 0x00], ''image/tiff''),
     ([CHR ''M'', CHR ''M'', CHR 0x00, CHR ''*''], ''image/tiff''),
     (''RIFF....WEBP'', ''image/webp''),
     ([CHR 0x52, CHR 0x49, CHR 0x46, CHR 0x46], ''video/x-msvideo''),
     ([CHR 0x7B, CHR 0x5C, CHR 0x72, CHR 0x74, CHR 0x66, CHR 0x31], ''application/rtf''),
     ([CHR 0x49, CHR 0x44, CHR 0x33], ''audio/mpeg''),
     ([CHR 0x00, CHR 0x00, CHR 0x00, CHR 0x28,
       CHR ''f'', CHR ''t'', CHR ''y'', CHR ''p'', CHR ''h'', CHR ''e'', CHR ''i'', CHR ''c''],
      ''image/heic''),
     ([CHR 0x89, CHR 0x50, CHR 0x4E, CHR 0x47, CHR 0x0D, CHR 0x0A, CHR 0x1A, CHR 0x0A],
      ''image/png'')]"

text \<open>
  \<open>imageSignatures\<close> is a Go map, and \<open>range\<close> over a map visits the entries in an order
  the language leaves unspecified and the runtime randomises at every loop. One execution
  of the loop is modelled by the order \<open>sigs\<close> in which it visits the entries: any
  permutation of the table.
\<close>

definition iteration_order :: "(string \<times> string) list \<Rightarrow> bool" where
  "iteration_order sigs = (mset sigs = mset imageSignatures)"

text \<open>The loop of \<open>IsImage\<close> over the entries, in the order visited.\<close>

fun IsImage_loop :: "(string \<times> string) list \<Rightarrow> string \<Rightarrow> string \<Rightarrow> bool \<times> string \<times> go_error option" where
  "IsImage_loop [] buffer filePath = (False, [], None)"
| "IsImage_loop ((magic, mime) # rest) buffer filePath =
     (if HasPrefix buffer magic then
        (if mime = ''image/png'' then
           (let suffix = Ext filePath; isNEF = EqualFold suffix ''.NEF'' in
            if isNEF then (True, ''image/nef'', None) else (True, mime, None))
         else (True, mime, None))
      else IsImage_loop rest buffer filePath)"

definition IsImage :: "(string \<times> string) list \<Rightarrow> filesystem \<Rightarrow> string \<Rightarrow> bool \<times> string \<times> go_error option" where
  "IsImage sigs fs filePath =
     (case fs filePath of
        Inl err \<Rightarrow> (False, [], Some err)
      | Inr f \<Rightarrow>
          (case ReadFull f 32 of
             (buffer, err) \<Rightarrow>
               if err \<noteq> None \<and> err \<noteq> Some EOF \<and> err \<noteq> Some ErrUnexpectedEOF
               then (False, [], err)
               else IsImage_loop sigs buffer filePath))"

text \<open>The eight bytes of the PNG signature, the key of the last entry of the table.\<close>

definition png_signature :: string where
  "png_signature = [CHR 0x89, CHR 0x50, CHR 0x4E, CHR 0x47, CHR 0x0D, CHR 0x0A, CHR 0x1A, CHR 0x0A]"

section \<open>Helper facts about the classifier\<close>

lemma HasPrefix_prefix: "HasPrefix s p = prefix p s"
proof
  assume "HasPrefix s p"
  then have "take (length p) s = p" by (simp add: HasPrefix_def)
  then show "prefix p s" by (metis take_is_prefix)
next
  assume "prefix p s"
  then obtain zs where "s = p @ zs" by (auto simp: prefix_def)
  then show "HasPrefix s p" by (simp add: HasPrefix_def)
qed

lemma IsImage_loop_find:
  "IsImage_loop sigs buffer filePath =
     (case find (\<lambda>(magic, mime). HasPrefix buffer magic) sigs of
        None \<Rightarrow> (False, [], None)
      | Some (magic, mime) \<Rightarrow>
          (True, if mime = ''image/png'' \<and> EqualFold (Ext filePath) ''.NEF'' then ''image/nef'' else mime, None))"
  by (induction sigs buffer filePath rule: IsImage_loop.induct) (auto simp: Let_def)

lemma iteration_order_set: "iteration_order sigs \<Longrightarrow> set sigs = set imageSignatures"
  unfolding iteration_order_def by (rule mset_eq_setD)

lemma png_only_match:
  "(magic, mime) \<in> set imageSignatures \<Longrightarrow> HasPrefix (png_signature @ rest) magic \<Longrightarrow> mime = ''image/png''"
  by (auto simp: imageSignatures_def HasPrefix_prefix png_signature_def)

lemma png_entry: "(png_signature, ''image/png'') \<in> set imageSignatures"
  by (simp add: imageSignatures_def png_signature_def)

lemma IsImage_loop_png:
  assumes ord: "iteration_order sigs" and pre: "HasPrefix buffer png_signature"
  shows "IsImage_loop sigs buffer filePath =
           (True, if EqualFold (Ext filePath) ''.NEF'' then ''image/nef'' else ''image/png'', None)"
proof -
  let ?P = "\<lambda>(magic, mime). HasPrefix buffer magic"
  from pre obtain rest where buf: "buffer = png_signature @ rest"
    by (auto simp: HasPrefix_prefix prefix_def)
  have "(png_signature, ''image/png'') \<in> set sigs"
    using ord png_entry by (simp add: iteration_order_set)
  with pre have "\<exists>x\<in>set sigs. ?P x" by auto
  then obtain magic mime where f: "find ?P sigs = Some (magic, mime)"
    by (cases "find ?P sigs") (auto simp: find_None_iff)
  then have "(magic, mime) \<in> set sigs" and "HasPrefix buffer magic"
    by (auto simp: find_Some_iff in_set_conv_nth)
  then have "mime = ''image/png''"
    using ord buf png_only_match by (simp add: iteration_order_set)
  with f show ?thesis by (simp add: IsImage_loop_find)
qed

lemma ReadFull_keeps_prefix:
  assumes "HasPrefix (data f) p" and "length p \<le> n"
  shows "HasPrefix (fst (ReadFull f n)) p"
proof -
  from assms(1) obtain rest where d: "data f = p @ rest"
    by (auto simp: HasPrefix_prefix prefix_def)
  show ?thesis using assms(2) by (simp add: ReadFull_def d HasPrefix_def)
qed

text \<open>
  Claim C2. A file whose leading bytes are the PNG signature, and whose 32-byte probe can be
  read, is recognised whatever the order in which the table is visited: as \<open>image/nef\<close>
  when the extension of its path equals \<open>.NEF\<close> up to case, as \<open>image/png\<close> for every
  other extension.
\<close>

theorem png_signature_classification:
  assumes "iteration_order sigs"
    and "fs filePath = Inr f"
    and "HasPrefix (data f) png_signature"
    and "fault f = None \<or> 32 \<le> length (data f)"
  shows "IsImage sigs fs filePath =
           (True, if EqualFold (Ext filePath) ''.NEF'' then ''image/nef'' else ''image/png'', None)"
proof -
  obtain buffer err where rf: "ReadFull f 32 = (buffer, err)" by (cases "ReadFull f 32")
  have pre: "HasPrefix buffer png_signature"
    using ReadFull_keeps_prefix [OF assms(3), of 32] rf by (simp add: png_signature_def)
  have "err = None \<or> err = Some EOF \<or> err = Some ErrUnexpectedEOF"
    using assms(4) rf by (auto simp: ReadFull_def split: if_splits)
  then have "IsImage sigs fs filePath = IsImage_loop sigs buffer filePath"
    using assms(2) rf by (auto simp: IsImage_def)
  then show ?thesis using IsImage_loop_png [OF assms(1) pre] by simp
qed

theorem png_signature_classification_witness:
  "iteration_order imageSignatures
   \<and> IsImage imageSignatures (\<lambda>p. Inr \<lparr>data = png_signature @ ''rest'', fault = None\<rparr>) ''dir/DSC_0001.nef''
       = (True, ''image/nef'', None)
   \<and> IsImage imageSignatures (\<lambda>p. Inr \<lparr>data = png_signature @ ''rest'', fault = None\<rparr>) ''dir/logo.gif''
       = (True, ''image/png'', None)"
proof -
  let ?fs = "\<lambda>p::string. (Inr \<lparr>data = png_signature @ ''rest'', fault = None\<rparr> :: go_error + os_file)"
  have o: "iteration_order imageSignatures" by (simp add: iteration_order_def)
  have h: "HasPrefix (data \<lparr>data = png_signature @ ''rest'', fault = None\<rparr>) png_signature"
    by (simp add: HasPrefix_def)
  have e1: "EqualFold (Ext ''dir/DSC_0001.nef'') ''.NEF''"
    by (simp add: EqualFold_def Ext_def toLower_def)
  have e2: "\<not> EqualFold (Ext ''dir/logo.gif'') ''.NEF''"
    by (simp add: EqualFold_def Ext_def toLower_def)
  show ?thesis
    using o e1 e2 h
      png_signature_classification [of imageSignatures ?fs "''dir/DSC_0001.nef''"
        "\<lparr>data = png_signature @ ''rest'', fault = None\<rparr>"]
      png_signature_classification [of imageSignatures ?fs "''dir/logo.gif''"
        "\<lparr>data = png_signature @ ''rest'', fault = None\<rparr>"]
    by simp
qed

end
